theory Spec2Isabelle
  imports Complex_Main "HOL-Library.AList"
begin

section \<open>Process Mining made easy: the page script\<close>

text \<open>
  The repository is one Streamlit script, \<^verbatim>\<open>page_process_mining_made_easy.py\<close>. Its own
  logic is a janitor for the scratch folder (\<^verbatim>\<open>clear_tempfiles\<close>), two cached loaders
  (\<^verbatim>\<open>load_file_to_dataframe\<close>, \<^verbatim>\<open>load_event_log_from_dataframe\<close>), a duration formatter
  (\<^verbatim>\<open>make_text_from_seconds\<close>) and the top-level control flow of the page. Everything else
  is calls into Streamlit, pandas and PM4Py. Each part is embedded below from the source.
\<close>

section \<open>Python numbers and their text\<close>

text \<open>
  \<^verbatim>\<open>make_text_from_seconds\<close> receives a Python float at every call site (a numpy
  \<^verbatim>\<open>float64\<close>, which subclasses \<^verbatim>\<open>float\<close>, or \<^verbatim>\<open>float(x)\<close>). A float is an IEEE 754 binary64
  value: a finite one is given by its exact rational value (\<open>Fin x\<close> stands for a float
  when \<open>x\<close> is a binary64 value), the others are the two infinities and NaN. The sign of
  a zero is not kept: the formatter never prints a zero float.

  The operations are those of the built-in \<^verbatim>\<open>float\<close>. A numpy \<^verbatim>\<open>float64\<close> compares, divides
  and rounds to a whole number in the same way; it rounds to one decimal by scaling with
  10, which can differ from the built-in in that decimal next to a tie. The properties
  proved below are about the unit of the text, and about amounts on which both agree.
\<close>

datatype pyfloat = Fin rat | PosInf | NegInf | NaN

datatype error = OverflowError | ValueError | KeyError | FileNotFoundError

text \<open>
  \<open>num_digits b n\<close> is the number of digits of \<open>n\<close> in base \<open>b\<close> (\<^verbatim>\<open>n.bit_length()\<close> for
  \<open>b = 2\<close>), and \<open>ilog b x\<close> is \<open>\<lfloor>log\<^sub>b x\<rfloor>\<close> for a positive rational \<open>x\<close>.
\<close>

fun num_digits :: "nat \<Rightarrow> nat \<Rightarrow> nat" where
  "num_digits b n = (if n = 0 \<or> b < 2 then 0 else Suc (num_digits b (n div b)))"

declare num_digits.simps [simp del]

definition ilog :: "nat \<Rightarrow> rat \<Rightarrow> int" where
  "ilog b x =
     (if 1 \<le> x then int (num_digits b (nat \<lfloor>x\<rfloor>)) - 1
      else - int (num_digits b (nat (\<lceil>1 / x\<rceil> - 1))))"

definition pow_int :: "rat \<Rightarrow> int \<Rightarrow> rat" where
  "pow_int b k = (if 0 \<le> k then b ^ nat k else 1 / b ^ nat (- k))"

text \<open>Rounding to the nearest integer, a tie to the even one.\<close>

definition round_half_even :: "rat \<Rightarrow> int" where
  "round_half_even x =
     (let f = \<lfloor>x\<rfloor>; d = x - of_int f
      in if d < 1 / 2 then f else if 1 / 2 < d then f + 1
         else if even f then f else f + 1)"

text \<open>
  \<open>fl x\<close> is the binary64 value nearest to \<open>x\<close> (ties to even): 53 significant bits,
  and multiples of \<open>2\<^sup>-\<^sup>1\<^sup>0\<^sup>7\<^sup>4\<close> in the subnormal range. Overflow is not part of it: the
  program only divides by constants of at least 60 and rounds to decimals, and neither
  takes a finite float out of range.
\<close>

definition fl :: "rat \<Rightarrow> rat" where
  "fl x =
     (if x = 0 then 0
      else let q = pow_int 2 (max (ilog 2 \<bar>x\<bar> - 52) (- 1074))
           in of_int (round_half_even (x / q)) * q)"

text \<open>
  The operations of the formatter on a float. \<^verbatim>\<open>seconds < c\<close> compares with an integer
  literal, exactly; every comparison with NaN is false. \<^verbatim>\<open>seconds / c\<close> is the correctly
  rounded quotient. \<^verbatim>\<open>round(x, n)\<close> on a float converts the exact value to the nearest
  decimal with \<open>n\<close> places (ties to even) and reads that decimal back as a float; the
  infinities and NaN round to themselves. \<^verbatim>\<open>int(x)\<close> truncates and raises on an infinity
  (\<^verbatim>\<open>OverflowError\<close>) and on NaN (\<^verbatim>\<open>ValueError\<close>).
\<close>

fun py_lt :: "pyfloat \<Rightarrow> rat \<Rightarrow> bool" where
  "py_lt (Fin x) c = (x < c)"
| "py_lt NegInf c = True"
| "py_lt PosInf c = False"
| "py_lt NaN c = False"

text \<open>
  \<^verbatim>\<open>seconds >= c\<close>, the comparison in which a lower threshold is worded. The formatter
  itself only uses \<^verbatim>\<open><\<close>; on a number the two are complements, on NaN both are false.
\<close>

fun py_ge :: "pyfloat \<Rightarrow> rat \<Rightarrow> bool" where
  "py_ge (Fin x) c = (c \<le> x)"
| "py_ge NegInf c = False"
| "py_ge PosInf c = True"
| "py_ge NaN c = False"

fun py_truediv :: "pyfloat \<Rightarrow> rat \<Rightarrow> pyfloat" where
  "py_truediv (Fin x) c = Fin (fl (x / c))"
| "py_truediv PosInf c = PosInf"
| "py_truediv NegInf c = NegInf"
| "py_truediv NaN c = NaN"

fun py_round :: "pyfloat \<Rightarrow> nat \<Rightarrow> pyfloat" where
  "py_round (Fin x) n = Fin (fl (of_int (round_half_even (x * 10 ^ n)) / 10 ^ n))"
| "py_round PosInf n = PosInf"
| "py_round NegInf n = NegInf"
| "py_round NaN n = NaN"

fun py_int :: "pyfloat \<Rightarrow> error + int" where
  "py_int (Fin x) = Inr (if 0 \<le> x then \<lfloor>x\<rfloor> else \<lceil>x\<rceil>)"
| "py_int PosInf = Inl OverflowError"
| "py_int NegInf = Inl OverflowError"
| "py_int NaN = Inl ValueError"

text \<open>The text of an integer in an f-string: its decimal digits, with a minus sign.\<close>

definition digit_char :: "nat \<Rightarrow> char" where
  "digit_char d = ''0123456789'' ! d"

fun digits :: "nat \<Rightarrow> string" where
  "digits n = (if n < 10 then [digit_char n] else digits (n div 10) @ [digit_char (n mod 10)])"

declare digits.simps [simp del]

definition str_int :: "int \<Rightarrow> string" where
  "str_int i = (if i < 0 then CHR ''-'' # digits (nat (- i)) else digits (nat i))"

text \<open>
  The text of a float in an f-string is its \<^verbatim>\<open>repr\<close>: the shortest decimal that reads
  back as the same float, the nearest to it among the shortest. \<open>candidate x e n\<close> looks
  for such a decimal with \<open>n\<close> significant digits, as (digits, exponent of the last
  digit); \<open>shortest\<close> takes the first length that has one (17 digits always do).
\<close>

definition candidate :: "rat \<Rightarrow> int \<Rightarrow> nat \<Rightarrow> (int \<times> int) option" where
  "candidate x e10 n =
     (let k = e10 - int n + 1; s = pow_int 10 k;
          lo = \<lfloor>x / s\<rfloor>; hi = lo + 1;
          oklo = (fl (of_int lo * s) = x); okhi = (fl (of_int hi * s) = x)
      in if oklo \<and> okhi then
           (let dl = x - of_int lo * s; dh = of_int hi * s - x
            in if dl < dh then Some (lo, k) else if dh < dl then Some (hi, k)
               else Some (if even lo then lo else hi, k))
         else if oklo then Some (lo, k)
         else if okhi then Some (hi, k)
         else None)"

definition shortest :: "rat \<Rightarrow> int \<times> int" where
  "shortest x =
     (case List.map_filter (candidate x (ilog 10 x)) [1..<18] of
        c # _ \<Rightarrow> c
      | [] \<Rightarrow> (0, 0))"

text \<open>
  The layout of \<^verbatim>\<open>repr\<close>: positional while the decimal point stands after at most 16
  digits and before at most 4 zeros, with \<^verbatim>\<open>.0\<close> added to a whole number; exponent
  notation with a two-digit exponent otherwise.
\<close>

definition float_repr_pos :: "rat \<Rightarrow> string" where
  "float_repr_pos x =
     (let (m, e) = shortest x;
          ds0 = digits (nat m);
          decpt = int (length ds0) + e;
          ds = rev (dropWhile (\<lambda>c. c = CHR ''0'') (rev ds0));
          n = int (length ds)
      in if - 4 < decpt \<and> decpt \<le> 16 then
           (if decpt \<le> 0 then ''0.'' @ replicate (nat (- decpt)) CHR ''0'' @ ds
            else if n \<le> decpt then ds @ replicate (nat (decpt - n)) CHR ''0'' @ ''.0''
            else take (nat decpt) ds @ ''.'' @ drop (nat decpt) ds)
         else
           (let ex = decpt - 1
            in take 1 ds @ (if 1 < n then CHR ''.'' # drop 1 ds else [])
               @ ''e'' @ (if ex < 0 then ''-'' else ''+'')
               @ (if \<bar>ex\<bar> < 10 then ''0'' else []) @ digits (nat \<bar>ex\<bar>)))"

fun str_float :: "pyfloat \<Rightarrow> string" where
  "str_float (Fin x) =
     (if x = 0 then ''0.0''
      else if x < 0 then CHR ''-'' # float_repr_pos (- x)
      else float_repr_pos x)"
| "str_float PosInf = ''inf''"
| "str_float NegInf = ''-inf''"
| "str_float NaN = ''nan''"

section \<open>The duration formatter\<close>

text \<open>
  \<^verbatim>\<open>
  def make_text_from_seconds(seconds):
      if seconds < 60 * 2:
          return f"{int(round(seconds, 0))} seconds"
      elif seconds < 3600 * 1:
          return f"{int(round(seconds / 60, 0))} minutes"
      elif seconds < 86400 * 1:
          return f"{round(seconds / 3600, 1)} hours"
      elif seconds < 604800 * 2:
          return f"{round(seconds / 86400, 1)} days"
      elif seconds < 2592000 * 1:
          return f"{round(seconds / 604800, 1)} weeks"
      else:
          return f"{round(seconds / 2592000, 1)} months"
  \<close>
  The result is the text, or the exception that \<^verbatim>\<open>int\<close> raises.
\<close>

definition make_text_from_seconds :: "pyfloat \<Rightarrow> error + string" where
  "make_text_from_seconds seconds =
     (if py_lt seconds (60 * 2) then
        (case py_int (py_round seconds 0) of
           Inl e \<Rightarrow> Inl e
         | Inr n \<Rightarrow> Inr (str_int n @ '' seconds''))
      else if py_lt seconds (3600 * 1) then
        (case py_int (py_round (py_truediv seconds 60) 0) of
           Inl e \<Rightarrow> Inl e
         | Inr n \<Rightarrow> Inr (str_int n @ '' minutes''))
      else if py_lt seconds (86400 * 1) then
        Inr (str_float (py_round (py_truediv seconds 3600) 1) @ '' hours'')
      else if py_lt seconds (604800 * 2) then
        Inr (str_float (py_round (py_truediv seconds 86400) 1) @ '' days'')
      else if py_lt seconds (2592000 * 1) then
        Inr (str_float (py_round (py_truediv seconds 604800) 1) @ '' weeks'')
      else
        Inr (str_float (py_round (py_truediv seconds 2592000) 1) @ '' months''))"

text \<open>The unit of a text is its last word, what follows the last blank.\<close>

definition unit_of :: "string \<Rightarrow> string" where
  "unit_of t = rev (takeWhile (\<lambda>c. c \<noteq> CHR '' '') (rev t))"

section \<open>The janitor of the scratch folder\<close>

text \<open>
  \<^verbatim>\<open>
  TEMPORARY_FILES_FOLDER_NAME = "tempfilesProcessMiningSimple"

  def clear_tempfiles():
      temp_folder = TEMPORARY_FILES_FOLDER_NAME
      now = time.time()
      cutoff = now - 3600  # 1 hour ago
      for filename in os.listdir(temp_folder):
          file_path = os.path.join(temp_folder, filename)
          if os.path.isfile(file_path):
              file_modified_time = os.path.getmtime(file_path)
              if file_modified_time < cutoff:
                  os.remove(file_path)
  \<close>
  The file system is the state: a list of paths (lists of names, relative to the working
  directory) with what the operating system answers for each, namely whether
  \<^verbatim>\<open>os.path.isfile\<close> holds (it follows symbolic links) and the modification time in
  seconds since the epoch. Times are taken by their exact values: for every clock reading
  \<open>now\<close> between half an hour and \<open>2 ^ 57\<close> seconds after the epoch, the subtraction
  \<^verbatim>\<open>now - 3600\<close> is exact in binary64. The script creates the folder before the janitor runs, so listing it does
  not fail.
\<close>

record entry =
  isfile :: bool
  mtime :: rat

type_synonym path = "string list"

type_synonym filesystem = "(path \<times> entry) list"

definition TEMPORARY_FILES_FOLDER_NAME :: string where
  "TEMPORARY_FILES_FOLDER_NAME = ''tempfilesProcessMiningSimple''"

definition os_listdir :: "filesystem \<Rightarrow> path \<Rightarrow> string list" where
  "os_listdir fs d = [last p. (p, e) \<leftarrow> fs, p \<noteq> [] \<and> butlast p = d]"

definition os_path_join :: "path \<Rightarrow> string \<Rightarrow> path" where
  "os_path_join d filename = d @ [filename]"

definition os_path_isfile :: "filesystem \<Rightarrow> path \<Rightarrow> bool" where
  "os_path_isfile fs p = (case map_of fs p of None \<Rightarrow> False | Some e \<Rightarrow> isfile e)"

definition os_path_getmtime :: "filesystem \<Rightarrow> path \<Rightarrow> error + rat" where
  "os_path_getmtime fs p =
     (case map_of fs p of None \<Rightarrow> Inl FileNotFoundError | Some e \<Rightarrow> Inr (mtime e))"

text \<open>\<^verbatim>\<open>os.remove\<close> is only ever called on a path for which \<^verbatim>\<open>isfile\<close> has answered yes.\<close>

definition os_remove :: "filesystem \<Rightarrow> path \<Rightarrow> error + filesystem" where
  "os_remove fs p =
     (case map_of fs p of
        None \<Rightarrow> Inl FileNotFoundError
      | Some e \<Rightarrow> Inr (filter (\<lambda>(q, e). q \<noteq> p) fs))"

text \<open>The loop runs over the listing taken at its start; each removal changes the state.\<close>

fun clear_loop :: "rat \<Rightarrow> path \<Rightarrow> string list \<Rightarrow> filesystem \<Rightarrow> error + filesystem" where
  "clear_loop cutoff temp_folder [] fs = Inr fs"
| "clear_loop cutoff temp_folder (filename # rest) fs =
     (let file_path = os_path_join temp_folder filename
      in if os_path_isfile fs file_path then
           (case os_path_getmtime fs file_path of
              Inl e \<Rightarrow> Inl e
            | Inr file_modified_time \<Rightarrow>
                if file_modified_time < cutoff then
                  (case os_remove fs file_path of
                     Inl e \<Rightarrow> Inl e
                   | Inr fs' \<Rightarrow> clear_loop cutoff temp_folder rest fs')
                else clear_loop cutoff temp_folder rest fs)
         else clear_loop cutoff temp_folder rest fs)"

definition clear_tempfiles :: "rat \<Rightarrow> filesystem \<Rightarrow> error + filesystem" where
  "clear_tempfiles now fs =
     (let temp_folder = [TEMPORARY_FILES_FOLDER_NAME];
          cutoff = now - 3600
      in clear_loop cutoff temp_folder (os_listdir fs temp_folder) fs)"

section \<open>Tables and the two loaders\<close>

text \<open>
  A pandas DataFrame is its columns in order, each a label with its cells; all columns of
  a DataFrame have the same length, and the labels are taken to be distinct. A cell is a
  text or some other value (a number, a timestamp), whose type is left open.
\<close>

datatype 'v cell = Str string | Val 'v

type_synonym 'v frame = "(string \<times> 'v cell list) list"

definition nrows :: "'v frame \<Rightarrow> nat" where
  "nrows df = (case df of [] \<Rightarrow> 0 | (c, vs) # _ \<Rightarrow> length vs)"

definition rectangular :: "'v frame \<Rightarrow> bool" where
  "rectangular df = list_all (\<lambda>(c, vs). length vs = nrows df) df"

text \<open>\<^verbatim>\<open>df.iterrows()\<close> yields the rows in order, \<^verbatim>\<open>row[c]\<close> reads a cell, \<^verbatim>\<open>df.head(k)\<close> keeps \<open>k\<close> rows.\<close>

definition iterrows :: "'v frame \<Rightarrow> (string \<times> 'v cell) list list" where
  "iterrows df = map (\<lambda>i. map (\<lambda>(c, vs). (c, vs ! i)) df) [0..<nrows df]"

definition row_get :: "(string \<times> 'v cell) list \<Rightarrow> string \<Rightarrow> error + 'v cell" where
  "row_get row c = (case map_of row c of None \<Rightarrow> Inl KeyError | Some v \<Rightarrow> Inr v)"

definition head :: "nat \<Rightarrow> 'v frame \<Rightarrow> 'v frame" where
  "head k df = map (\<lambda>(c, vs). (c, take k vs)) df"

text \<open>
  What the script takes from its libraries without defining it: PM4Py's
  \<^verbatim>\<open>format_dataframe\<close>, which makes the event log of a table and three column names; the
  text \<^verbatim>\<open>str\<close> gives for a value that is not a text; the dtype pandas assigns to a column;
  and \<^verbatim>\<open>pd.to_datetime\<close> on a day written \<^verbatim>\<open>%d.%m.%Y\<close>.
\<close>

record ('v, 'log) libs =
  format_dataframe :: "'v frame \<Rightarrow> string \<Rightarrow> string \<Rightarrow> string \<Rightarrow> 'log"
  str_val :: "'v \<Rightarrow> string"
  dtype_of :: "'v cell list \<Rightarrow> string"
  to_datetime :: "string \<Rightarrow> 'v"

fun py_str :: "('v, 'log) libs \<Rightarrow> 'v cell \<Rightarrow> string" where
  "py_str libs (Str s) = s"
| "py_str libs (Val v) = str_val libs v"

text \<open>An exception ends the computation: the rest runs only on a result.\<close>

fun and_then :: "error + 'a \<Rightarrow> ('a \<Rightarrow> error + 'b) \<Rightarrow> error + 'b" where
  "and_then (Inl e) f = Inl e"
| "and_then (Inr x) f = f x"

subsection \<open>Loading the uploaded file\<close>

text \<open>
  \<^verbatim>\<open>
  @st.cache_data
  def load_file_to_dataframe(filename):
      df = pd.read_excel(filename, sheet_name=0)
      return df
  \<close>
  An upload is a workbook, the list of its sheets, or something the reader raises on
  (given by the message of the exception). \<^verbatim>\<open>pd.read_excel\<close> with \<^verbatim>\<open>sheet_name=i\<close>
  returns the sheet at the zero-based position \<open>i\<close>. The cache returns the stored result
  of an earlier call with the same file and stores no exception.
\<close>

datatype 'v upload = Unreadable string | Workbook "'v frame list"

fun pd_read_excel :: "'v upload \<Rightarrow> nat \<Rightarrow> string + 'v frame" where
  "pd_read_excel (Unreadable msg) sheet_name = Inl msg"
| "pd_read_excel (Workbook sheets) sheet_name =
     (if sheet_name < length sheets then Inr (sheets ! sheet_name)
      else Inl ''Worksheet index is invalid'')"

definition load_file_to_dataframe :: "'v upload \<Rightarrow> string + 'v frame" where
  "load_file_to_dataframe filename = pd_read_excel filename 0"

subsection \<open>Making the event log\<close>

text \<open>
  \<^verbatim>\<open>
  @st.cache_data
  def load_event_log_from_dataframe(df, case_column, activity_column, timestamp_column,
                                    timestamp_end_column = None):
      if timestamp_end_column is None:
          new_log = pm4py.format_dataframe(df, case_id=case_column,
                        activity_key=activity_column, timestamp_key=timestamp_column)
      else:
          new_data = {case_column: [], activity_column: [], timestamp_column: []}
          for i, row in df.iterrows():
              new_data[case_column].append(row[case_column])
              new_data[activity_column].append(str(row[activity_column]) + "_start")
              new_data[timestamp_column].append(row[timestamp_column])
              new_data[case_column].append(row[case_column])
              new_data[activity_column].append(str(row[activity_column]) + "_end")
              new_data[timestamp_column].append(row[timestamp_end_column])
          df_new = pd.DataFrame(new_data)
          new_log = pm4py.format_dataframe(df_new, case_id=case_column,
                        activity_key=activity_column, timestamp_key=timestamp_column)
      return new_log
  \<close>
  The dictionary \<^verbatim>\<open>new_data\<close> keeps its keys in the order of insertion, and a key written
  twice in the literal is one key: an association list under \<open>AList.update\<close>. Its keys
  are there from the literal on, so \<^verbatim>\<open>new_data[k].append(v)\<close> finds its list.
  \<^verbatim>\<open>pd.DataFrame\<close> raises \<^verbatim>\<open>ValueError\<close> on lists of different lengths.
\<close>

definition dict_append :: "'v frame \<Rightarrow> string \<Rightarrow> 'v cell \<Rightarrow> 'v frame" where
  "dict_append new_data k v = AList.map_entry k (\<lambda>vs. vs @ [v]) new_data"

definition split_row ::
  "('v, 'log) libs \<Rightarrow> string \<Rightarrow> string \<Rightarrow> string \<Rightarrow> string \<Rightarrow>
   (string \<times> 'v cell) list \<Rightarrow> 'v frame \<Rightarrow> error + 'v frame" where
  "split_row libs case_column activity_column timestamp_column timestamp_end_column row new_data =
     and_then (row_get row case_column) (\<lambda>v1.
     and_then (row_get row activity_column) (\<lambda>v2.
     and_then (row_get row timestamp_column) (\<lambda>v3.
     and_then (row_get row case_column) (\<lambda>v4.
     and_then (row_get row activity_column) (\<lambda>v5.
     and_then (row_get row timestamp_end_column) (\<lambda>v6.
       let d1 = dict_append new_data case_column v1;
           d2 = dict_append d1 activity_column (Str (py_str libs v2 @ ''_start''));
           d3 = dict_append d2 timestamp_column v3;
           d4 = dict_append d3 case_column v4;
           d5 = dict_append d4 activity_column (Str (py_str libs v5 @ ''_end''));
           d6 = dict_append d5 timestamp_column v6
       in Inr d6))))))"

fun split_rows ::
  "('v, 'log) libs \<Rightarrow> string \<Rightarrow> string \<Rightarrow> string \<Rightarrow> string \<Rightarrow>
   (string \<times> 'v cell) list list \<Rightarrow> 'v frame \<Rightarrow> error + 'v frame" where
  "split_rows libs c a t te [] new_data = Inr new_data"
| "split_rows libs c a t te (row # rows) new_data =
     and_then (split_row libs c a t te row new_data) (split_rows libs c a t te rows)"

definition pd_DataFrame :: "'v frame \<Rightarrow> error + 'v frame" where
  "pd_DataFrame new_data = (if rectangular new_data then Inr new_data else Inl ValueError)"

definition load_event_log_from_dataframe ::
  "('v, 'log) libs \<Rightarrow> 'v frame \<Rightarrow> string \<Rightarrow> string \<Rightarrow> string \<Rightarrow> string option \<Rightarrow> error + 'log" where
  "load_event_log_from_dataframe libs df case_column activity_column timestamp_column
       timestamp_end_column =
     (case timestamp_end_column of
        None \<Rightarrow> Inr (format_dataframe libs df case_column activity_column timestamp_column)
      | Some end_column \<Rightarrow>
          (let new_data = AList.update timestamp_column []
                            (AList.update activity_column []
                              (AList.update case_column [] []))
           in and_then (split_rows libs case_column activity_column timestamp_column end_column
                          (iterrows df) new_data) (\<lambda>new_data.
              and_then (pd_DataFrame new_data) (\<lambda>df_new.
                Inr (format_dataframe libs df_new case_column activity_column
                       timestamp_column)))))"

section \<open>One run of the page\<close>

text \<open>
  Streamlit runs the script from top to bottom on every interaction. The widget states
  are the input of a run; what it shows and calls is a list of events, and the variables
  \<^verbatim>\<open>df\<close> and \<^verbatim>\<open>log\<close> at its end are kept with them.
\<close>

datatype event =
    Call_load_file
  | Call_load_event_log
  | St_success string
  | St_error string
  | St_info string
  | St_warning string
  | St_text string
  | St_dataframe nat
  | Column_form
  | Analysis

record ('v, 'log) outcome =
  df_final :: "'v frame option"
  log_final :: "'log option"
  events :: "event list"

subsection \<open>The checks on the chosen columns, and the conversion\<close>

text \<open>
  \<^verbatim>\<open>
  any_warning = False
  if case_column == activity_column:
      st.warning("Case and activity column should be different")
      any_warning = True
  if case_column == timestamp_start_column: ...
  if case_column == timestamp_end_column: ...
  if activity_column == timestamp_start_column: ...
  if activity_column == timestamp_end_column: ...
  if timestamp_start_column == timestamp_end_column: ...
  if df[timestamp_start_column].dtype != 'datetime64[ns]':
      st.warning("Timestamp start column should be of type datetime, convert to datetime
                  in Excel first")
      any_warning = True
  if timestamp_end_column is not None:
      if df[timestamp_end_column].dtype != 'datetime64[ns]':
          st.warning("Timestamp end column should be of type datetime, convert to
                      datetime in Excel first")
          any_warning = True
  if any_warning is False:
      log = load_event_log_from_dataframe(df, case_column, activity_column,
                timestamp_start_column, timestamp_end_column)
  \<close>
  The state of the checks is the flag \<^verbatim>\<open>any_warning\<close> with the warnings shown so far.
  The select box of the end column starts empty (\<^verbatim>\<open>None\<close>), and \<^verbatim>\<open>None\<close> equals no
  column name.
\<close>

definition warn_if :: "bool \<Rightarrow> string \<Rightarrow> bool \<times> event list \<Rightarrow> bool \<times> event list" where
  "warn_if cond msg st = (if cond then (True, snd st @ [St_warning msg]) else st)"

definition column_dtype :: "('v, 'log) libs \<Rightarrow> 'v frame \<Rightarrow> string \<Rightarrow> error + string" where
  "column_dtype libs df c =
     (case map_of df c of None \<Rightarrow> Inl KeyError | Some vs \<Rightarrow> Inr (dtype_of libs vs))"

definition column_checks ::
  "('v, 'log) libs \<Rightarrow> 'v frame \<Rightarrow> string \<Rightarrow> string \<Rightarrow> string \<Rightarrow> string option \<Rightarrow>
   error + bool \<times> event list" where
  "column_checks libs df case_column activity_column timestamp_start_column timestamp_end_column =
     (let st = (False, []);
          st = warn_if (case_column = activity_column)
                 ''Case and activity column should be different'' st;
          st = warn_if (case_column = timestamp_start_column)
                 ''Case and timestamp start column should be different'' st;
          st = warn_if (Some case_column = timestamp_end_column)
                 ''Case and timestamp end column should be different'' st;
          st = warn_if (activity_column = timestamp_start_column)
                 ''Activity and timestamp start column should be different'' st;
          st = warn_if (Some activity_column = timestamp_end_column)
                 ''Activity and timestamp end column should be different'' st;
          st = warn_if (Some timestamp_start_column = timestamp_end_column)
                 ''Timestamp start and timestamp end column should be different'' st
      in and_then (column_dtype libs df timestamp_start_column) (\<lambda>dtype.
           let st = warn_if (dtype \<noteq> ''datetime64[ns]'')
                      ''Timestamp start column should be of type datetime, convert to datetime in Excel first'' st
           in case timestamp_end_column of
                None \<Rightarrow> Inr st
              | Some end_column \<Rightarrow>
                  and_then (column_dtype libs df end_column) (\<lambda>dtype.
                    Inr (warn_if (dtype \<noteq> ''datetime64[ns]'')
                           ''Timestamp end column should be of type datetime, convert to datetime in Excel first'' st))))"

definition convert ::
  "('v, 'log) libs \<Rightarrow> 'v frame \<Rightarrow> string \<Rightarrow> string \<Rightarrow> string \<Rightarrow> string option \<Rightarrow>
   error + event list \<times> 'log option" where
  "convert libs df case_column activity_column timestamp_start_column timestamp_end_column =
     and_then (column_checks libs df case_column activity_column timestamp_start_column
                 timestamp_end_column) (\<lambda>(any_warning, warnings).
       if any_warning = False then
         and_then (load_event_log_from_dataframe libs df case_column activity_column
                     timestamp_start_column timestamp_end_column) (\<lambda>log.
           Inr (warnings @ [Call_load_event_log], Some log))
       else Inr (warnings, None))"

subsection \<open>The widgets and the example tables\<close>

record 'v inputs =
  select_load_procedure :: string
  uploaded_file :: "'v upload option"
  case_column :: string
  activity_column :: string
  timestamp_start_column :: string
  timestamp_end_column :: "string option"

text \<open>The three entries of the select box, in its order.\<close>

definition load_procedures :: "string list" where
  "load_procedures =
     [''Load from file'',
      ''Load example data 1 - Purchase orders'',
      ''Load example data 2 - Tablet production'']"

text \<open>The two hard-coded example tables.\<close>

definition example_data_1 :: "('v, 'log) libs \<Rightarrow> 'v frame" where
  "example_data_1 libs =
     [(''case_id'', map Str
        [''1'', ''1'', ''1'', ''1'', ''1'',
         ''2'', ''2'', ''2'', ''2'', ''2'',
         ''3'', ''3'', ''3'', ''3'', ''3'', ''3'',
         ''4'', ''4'', ''4'', ''4'', ''4'']),
      (''activity'', map Str
        [''Create purchase order'', ''Select vendor'', ''Send PO'', ''Receive goods'',
         ''Authorize invoice'',
         ''Create purchase order'', ''Select vendor'', ''Send PO'', ''Receive goods'',
         ''Authorize invoice'',
         ''Create purchase order'', ''Select vendor'', ''Send PO'', ''Receive goods'',
         ''Quality defect'', ''Authorize invoice'',
         ''Create purchase order'', ''Select vendor'', ''Send PO'', ''Receive goods'',
         ''Authorize invoice'']),
      (''timestamp'', map (\<lambda>d. Val (to_datetime libs d))
        [''01.10.2023'', ''03.10.2023'', ''04.10.2023'', ''03.11.2023'', ''08.11.2023'',
         ''04.10.2023'', ''09.10.2023'', ''12.10.2023'', ''02.11.2023'', ''11.11.2023'',
         ''18.10.2023'', ''23.10.2023'', ''23.10.2023'', ''30.10.2023'', ''03.11.2023'',
         ''25.11.2023'',
         ''01.11.2023'', ''08.11.2023'', ''12.11.2023'', ''01.12.2023'', ''08.12.2023''])]"

definition example_data_2 :: "('v, 'log) libs \<Rightarrow> 'v frame" where
  "example_data_2 libs =
     [(''case_id'', map Str
        [''1'', ''1'', ''1'',
         ''2'', ''2'', ''2'',
         ''3'', ''3'', ''3'',
         ''4'', ''4'', ''4'', ''4'',
         ''5'', ''5'', ''5'', ''5'']),
      (''activity'', map Str
        [''Granulation'', ''Tabletting'', ''Coating'',
         ''Granulation'', ''Tabletting'', ''Coating'',
         ''Granulation'', ''Tabletting'', ''Coating'',
         ''Granulation'', ''Tabletting'', ''Coating'', ''Sorting'',
         ''Granulation'', ''Tabletting'', ''Coating'', ''Sorting'']),
      (''timestamp_start'', map (\<lambda>d. Val (to_datetime libs d))
        [''01.10.2023'', ''14.10.2023'', ''18.10.2023'',
         ''04.10.2023'', ''12.10.2023'', ''18.10.2023'',
         ''09.10.2023'', ''19.10.2023'', ''25.10.2023'',
         ''11.10.2023'', ''20.10.2023'', ''24.10.2023'', ''30.10.2023'',
         ''18.10.2023'', ''24.10.2023'', ''31.10.2023'', ''04.11.2023'']),
      (''timestamp_end'', map (\<lambda>d. Val (to_datetime libs d))
        [''10.10.2023'', ''17.10.2023'', ''22.10.2023'',
         ''08.10.2023'', ''14.10.2023'', ''24.10.2023'',
         ''10.10.2023'', ''23.10.2023'', ''30.10.2023'',
         ''17.10.2023'', ''23.10.2023'', ''29.10.2023'', ''02.11.2023'',
         ''22.10.2023'', ''27.10.2023'', ''03.11.2023'', ''08.11.2023''])]"

subsection \<open>Loading\<close>

text \<open>
  \<^verbatim>\<open>
  df = None
  log = None
  select_load_procedure = st.selectbox("Select load procedure", [...])
  if select_load_procedure == "Load from file":
      uploaded_file = st.file_uploader(...)
      if uploaded_file is not None:
          try:
              df = load_file_to_dataframe(uploaded_file)
              st.success("File loaded successfully!")
          except Exception as e:
              st.error(f"Error loading file: {e}, if it is a network error most likely
                         you have the file open in Excel. Close it.")
  if select_load_procedure == "Load example data 1 - Purchase orders":
      df = pd.DataFrame(example_data)
  if select_load_procedure == "Load example data 2 - Tablet production":
      df = pd.DataFrame(example_data)
      st.info("Try to set timestamp_end columns to 'timestamp_end to see how the
               activities are automatically split into start/end.")
  \<close>
\<close>

definition load_data :: "('v, 'log) libs \<Rightarrow> 'v inputs \<Rightarrow> 'v frame option \<times> event list" where
  "load_data libs inp =
     (let df = None; ev = [];
          (df, ev) =
            (if select_load_procedure inp = ''Load from file'' then
               (case uploaded_file inp of
                  None \<Rightarrow> (df, ev)
                | Some file \<Rightarrow>
                    (case load_file_to_dataframe file of
                       Inr d \<Rightarrow>
                         (Some d, ev @ [Call_load_file, St_success ''File loaded successfully!''])
                     | Inl e \<Rightarrow>
                         (df, ev @ [Call_load_file,
                            St_error (''Error loading file: '' @ e @
                              '', if it is a network error most likely you have the file open in Excel. Close it.'')])))
             else (df, ev));
          (df, ev) =
            (if select_load_procedure inp = ''Load example data 1 - Purchase orders'' then
               (Some (example_data_1 libs), ev)
             else (df, ev));
          (df, ev) =
            (if select_load_procedure inp = ''Load example data 2 - Tablet production'' then
               (Some (example_data_2 libs),
                ev @ [St_info ''Try to set timestamp_end columns to 'timestamp_end to see how the activities are automatically split into start/end.''])
             else (df, ev))
      in (df, ev))"

subsection \<open>The view of the loaded data\<close>

text \<open>
  \<^verbatim>\<open>
  if select_load_procedure[10:] == "Load example":
      st.text("All data is shown below.")
      st.dataframe(df, hide_index=True)
  elif len(df) > 30:
      st.text("First 15 rows of data are shown below.")
      st.dataframe(df.head(15), hide_index=True)
  else:
      st.text("All data is shown below.")
      st.dataframe(df, hide_index=True)
  \<close>
  The slice \<^verbatim>\<open>s[10:]\<close> drops the first ten characters. A shown table is recorded by its
  number of rows.
\<close>

definition data_table :: "string \<Rightarrow> 'v frame \<Rightarrow> event list" where
  "data_table procedure df =
     (if drop 10 procedure = ''Load example'' then
        [St_text ''All data is shown below.'', St_dataframe (nrows df)]
      else if 30 < nrows df then
        [St_text ''First 15 rows of data are shown below.'', St_dataframe (nrows (head 15 df))]
      else
        [St_text ''All data is shown below.'', St_dataframe (nrows df)])"

subsection \<open>The whole run\<close>

text \<open>
  \<^verbatim>\<open>
  if "df" in locals() and df is not None:
      ... view of the data, column form, checks, conversion ...
  if log is not None:
      ... statistics and graphs ...
  \<close>
  The statistics and graphs are calls into PM4Py and Streamlit: one event. An exception
  outside the \<^verbatim>\<open>try\<close> ends the run.
\<close>

definition page :: "('v, 'log) libs \<Rightarrow> 'v inputs \<Rightarrow> error + ('v, 'log) outcome" where
  "page libs inp =
     (let (df, ev) = load_data libs inp
      in case df of
           None \<Rightarrow> Inr \<lparr>df_final = None, log_final = None, events = ev\<rparr>
         | Some d \<Rightarrow>
             and_then (convert libs d (case_column inp) (activity_column inp)
                         (timestamp_start_column inp) (timestamp_end_column inp))
               (\<lambda>(ev2, log).
                  Inr \<lparr>df_final = Some d, log_final = log,
                       events = ev @ data_table (select_load_procedure inp) d @ [Column_form]
                                @ ev2 @ (case log of None \<Rightarrow> [] | Some l \<Rightarrow> [Analysis])\<rparr>))"

subsection \<open>What the checks leave behind\<close>

text \<open>
  Two predicates to state properties with: an event is a warning; the state of the checks
  is consistent when the flag is set exactly if a warning was shown, and only warnings
  were shown.
\<close>

fun is_warning :: "event \<Rightarrow> bool" where
  "is_warning (St_warning msg) = True"
| "is_warning e = False"

definition checked :: "bool \<times> event list \<Rightarrow> bool" where
  "checked st = ((fst st = (snd st \<noteq> [])) \<and> list_all is_warning (snd st))"

subsection \<open>A stand-in for the libraries\<close>

text \<open>
  For the concrete instances below: values are numbers, the event log is the table it is
  made of, a column is of datetime type when none of its cells is a text.
\<close>

definition stub_libs :: "(nat, nat frame) libs" where
  "stub_libs =
     \<lparr>format_dataframe = (\<lambda>df case_id activity_key timestamp_key. df),
      str_val = (\<lambda>v. str_int (int v)),
      dtype_of = (\<lambda>vs. if list_all (\<lambda>v. case v of Val x \<Rightarrow> True | Str s \<Rightarrow> False) vs
                        then ''datetime64[ns]'' else ''object''),
      to_datetime = length\<rparr>"

section \<open>Properties of the duration formatter\<close>

text \<open>
  C1, as the code has it. The formatter gives \<^verbatim>\<open>119 seconds\<close> for 119, \<^verbatim>\<open>2 minutes\<close> for 120
  and \<^verbatim>\<open>1.0 hours\<close> for 3600. For 3599 it gives \<^verbatim>\<open>60 minutes\<close>: the quotient 3599 / 60 is
  59.98..., and \<^verbatim>\<open>round(..., 0)\<close> takes it to the nearest whole number of minutes, 60.
\<close>

theorem make_text_from_seconds_examples:
  "make_text_from_seconds (Fin 119) = Inr ''119 seconds'' \<and>
   make_text_from_seconds (Fin 120) = Inr ''2 minutes'' \<and>
   make_text_from_seconds (Fin 3599) = Inr ''60 minutes'' \<and>
   make_text_from_seconds (Fin 3600) = Inr ''1.0 hours''"
  by code_simp

text \<open>
  C1, as the specification words it, fails at its third example: the text for 3599
  seconds is not \<^verbatim>\<open>59 minutes\<close>.
\<close>

theorem make_text_from_seconds_3599_not_59_minutes:
  "make_text_from_seconds (Fin 3599) \<noteq> Inr ''59 minutes''"
  by code_simp

text \<open>The branch taken, and the text it gives.\<close>

lemma py_int_round0: "\<exists>n. py_int (py_round (Fin x) 0) = Inr n"
  by simp

lemma text_seconds:
  "s < 120 \<Longrightarrow> \<exists>n. make_text_from_seconds (Fin s) = Inr (str_int n @ '' seconds'')"
  unfolding make_text_from_seconds_def using py_int_round0 [of s] by auto

lemma text_minutes:
  "120 \<le> s \<Longrightarrow> s < 3600 \<Longrightarrow>
   \<exists>n. make_text_from_seconds (Fin s) = Inr (str_int n @ '' minutes'')"
  unfolding make_text_from_seconds_def using py_int_round0 [of "fl (s / 60)"] by auto

lemma text_hours:
  "3600 \<le> s \<Longrightarrow> s < 86400 \<Longrightarrow>
   make_text_from_seconds (Fin s) = Inr (str_float (py_round (py_truediv (Fin s) 3600) 1) @ '' hours'')"
  by (simp add: make_text_from_seconds_def)

lemma text_days:
  "86400 \<le> s \<Longrightarrow> s < 1209600 \<Longrightarrow>
   make_text_from_seconds (Fin s) = Inr (str_float (py_round (py_truediv (Fin s) 86400) 1) @ '' days'')"
  by (simp add: make_text_from_seconds_def)

lemma text_weeks:
  "1209600 \<le> s \<Longrightarrow> s < 2592000 \<Longrightarrow>
   make_text_from_seconds (Fin s) = Inr (str_float (py_round (py_truediv (Fin s) 604800) 1) @ '' weeks'')"
  by (simp add: make_text_from_seconds_def)

lemma text_months:
  "2592000 \<le> s \<Longrightarrow>
   make_text_from_seconds (Fin s) = Inr (str_float (py_round (py_truediv (Fin s) 2592000) 1) @ '' months'')"
  by (simp add: make_text_from_seconds_def)

lemma unit_of_simps:
  "unit_of (a @ '' seconds'') = ''seconds''"
  "unit_of (a @ '' minutes'') = ''minutes''"
  "unit_of (a @ '' hours'') = ''hours''"
  "unit_of (a @ '' days'') = ''days''"
  "unit_of (a @ '' weeks'') = ''weeks''"
  "unit_of (a @ '' months'') = ''months''"
  by (simp_all add: unit_of_def)

lemma text_unit:
  "\<exists>a. make_text_from_seconds (Fin s) =
     Inr (a @ '' '' @ (if s < 120 then ''seconds'' else if s < 3600 then ''minutes''
        else if s < 86400 then ''hours'' else if s < 1209600 then ''days''
        else if s < 2592000 then ''weeks'' else ''months''))"
proof -
  consider "s < 120" | "120 \<le> s" "s < 3600" | "3600 \<le> s" "s < 86400"
    | "86400 \<le> s" "s < 1209600" | "1209600 \<le> s" "s < 2592000" | "2592000 \<le> s"
    by linarith
  then show ?thesis
  proof cases
    case 1 then show ?thesis using text_seconds [of s] by auto
  next
    case 2 then show ?thesis using text_minutes [of s] by auto
  next
    case 3 then show ?thesis using text_hours [of s] by auto
  next
    case 4 then show ?thesis using text_days [of s] by auto
  next
    case 5 then show ?thesis using text_weeks [of s] by auto
  next
    case 6 then show ?thesis using text_months [of s] by auto
  qed
qed


lemma unit_of_text:
  "unit_of (a @ '' '' @ (if s < (120::rat) then ''seconds'' else if s < 3600 then ''minutes''
        else if s < 86400 then ''hours'' else if s < 1209600 then ''days''
        else if s < 2592000 then ''weeks'' else ''months'')) =
   (if s < 120 then ''seconds'' else if s < 3600 then ''minutes''
        else if s < 86400 then ''hours'' else if s < 1209600 then ''days''
        else if s < 2592000 then ''weeks'' else ''months'')"
  by (simp add: unit_of_def)

lemma text_unit_iff:
  "(\<exists>b. make_text_from_seconds (Fin s) = Inr (b @ '' '' @ u)) \<and> CHR '' '' \<notin> set u \<longleftrightarrow>
   u = (if s < 120 then ''seconds'' else if s < 3600 then ''minutes''
        else if s < 86400 then ''hours'' else if s < 1209600 then ''days''
        else if s < 2592000 then ''weeks'' else ''months'')"
  (is "?L \<longleftrightarrow> u = ?U")
proof
  obtain a where A: "make_text_from_seconds (Fin s) = Inr (a @ '' '' @ ?U)"
    using text_unit [of s] by blast
  assume ?L
  then obtain b where B: "make_text_from_seconds (Fin s) = Inr (b @ '' '' @ u)"
    and u: "CHR '' '' \<notin> set u" by blast
  from A B have "unit_of (a @ '' '' @ ?U) = unit_of (b @ '' '' @ u)" by simp
  moreover have "unit_of (b @ '' '' @ u) = u"
  proof -
    have "takeWhile (\<lambda>c. c \<noteq> CHR '' '') (rev u @ CHR '' '' # rev b) =
          rev u @ takeWhile (\<lambda>c. c \<noteq> CHR '' '') (CHR '' '' # rev b)"
      by (rule takeWhile_append2) (use u in auto)
    then show ?thesis by (simp add: unit_of_def)
  qed
  ultimately show "u = ?U" using unit_of_text [of a s] by simp
next
  assume "u = ?U"
  then show ?L using text_unit [of s] by auto
qed

text \<open>The unit of a number of seconds, and of positive infinity.\<close>

lemma thresholds_finite:
  "((\<exists>a. make_text_from_seconds (Fin s) = Inr (a @ '' seconds'')) \<longleftrightarrow> s < 120) \<and>
   ((\<exists>a. make_text_from_seconds (Fin s) = Inr (a @ '' minutes'')) \<longleftrightarrow> 120 \<le> s \<and> s < 3600) \<and>
   ((\<exists>a. make_text_from_seconds (Fin s) = Inr (a @ '' hours'')) \<longleftrightarrow> 3600 \<le> s \<and> s < 86400) \<and>
   ((\<exists>a. make_text_from_seconds (Fin s) = Inr (a @ '' days'')) \<longleftrightarrow> 86400 \<le> s \<and> s < 1209600) \<and>
   ((\<exists>a. make_text_from_seconds (Fin s) = Inr (a @ '' weeks'')) \<longleftrightarrow> 1209600 \<le> s \<and> s < 2592000) \<and>
   ((\<exists>a. make_text_from_seconds (Fin s) = Inr (a @ '' months'')) \<longleftrightarrow> 2592000 \<le> s)"
proof -
  have 1: "(\<exists>a. make_text_from_seconds (Fin s) = Inr (a @ '' seconds'')) \<longleftrightarrow> s < 120"
    using text_unit_iff [of s "''seconds''"] by simp
  have 2: "(\<exists>a. make_text_from_seconds (Fin s) = Inr (a @ '' minutes'')) \<longleftrightarrow> 120 \<le> s \<and> s < 3600"
    using text_unit_iff [of s "''minutes''"] by simp
  have 3: "(\<exists>a. make_text_from_seconds (Fin s) = Inr (a @ '' hours'')) \<longleftrightarrow> 3600 \<le> s \<and> s < 86400"
    using text_unit_iff [of s "''hours''"] by simp
  have 4: "(\<exists>a. make_text_from_seconds (Fin s) = Inr (a @ '' days'')) \<longleftrightarrow> 86400 \<le> s \<and> s < 1209600"
    using text_unit_iff [of s "''days''"] by simp
  have 5: "(\<exists>a. make_text_from_seconds (Fin s) = Inr (a @ '' weeks'')) \<longleftrightarrow> 1209600 \<le> s \<and> s < 2592000"
    using text_unit_iff [of s "''weeks''"] by simp
  have 6: "(\<exists>a. make_text_from_seconds (Fin s) = Inr (a @ '' months'')) \<longleftrightarrow> 2592000 \<le> s"
    using text_unit_iff [of s "''months''"] by simp
  from 1 2 3 4 5 6 show ?thesis by blast
qed

lemma make_text_from_seconds_PosInf: "make_text_from_seconds PosInf = Inr ''inf months''"
  by (simp add: make_text_from_seconds_def)

lemma inf_months_unit:
  "(\<exists>a. ''inf months'' = a @ '' '' @ u) \<and> CHR '' '' \<notin> set u \<longleftrightarrow> u = ''months''"
proof
  assume "(\<exists>a. ''inf months'' = a @ '' '' @ u) \<and> CHR '' '' \<notin> set u"
  then obtain a where a: "''inf months'' = a @ '' '' @ u" and u: "CHR '' '' \<notin> set u" by blast
  have "takeWhile (\<lambda>c. c \<noteq> CHR '' '') (rev u @ CHR '' '' # rev a) =
        rev u @ takeWhile (\<lambda>c. c \<noteq> CHR '' '') (CHR '' '' # rev a)"
    by (rule takeWhile_append2) (use u in auto)
  then have "unit_of (a @ '' '' @ u) = u" by (simp add: unit_of_def)
  moreover have "unit_of ''inf months'' = ''months''" by (simp add: unit_of_def)
  ultimately show "u = ''months''" using a by simp
next
  assume "u = ''months''"
  then show "(\<exists>a. ''inf months'' = a @ '' '' @ u) \<and> CHR '' '' \<notin> set u" by simp
qed

text \<open>
  C5, for every input other than NaN and negative infinity: the text ends in the unit
  that the five thresholds select, seconds iff \<open>s < 120\<close>, minutes iff \<open>120 \<le> s < 3600\<close>,
  hours iff \<open>3600 \<le> s < 86400\<close>, days iff \<open>86400 \<le> s < 1209600\<close>, weeks iff
  \<open>1209600 \<le> s < 2592000\<close>, and months iff \<open>2592000 \<le> s\<close>. The comparisons are Python's.
\<close>

theorem make_text_from_seconds_thresholds:
  assumes "x \<noteq> NaN" and "x \<noteq> NegInf"
  shows
  "((\<exists>a. make_text_from_seconds x = Inr (a @ '' seconds'')) \<longleftrightarrow> py_lt x 120) \<and>
   ((\<exists>a. make_text_from_seconds x = Inr (a @ '' minutes'')) \<longleftrightarrow> py_ge x 120 \<and> py_lt x 3600) \<and>
   ((\<exists>a. make_text_from_seconds x = Inr (a @ '' hours'')) \<longleftrightarrow> py_ge x 3600 \<and> py_lt x 86400) \<and>
   ((\<exists>a. make_text_from_seconds x = Inr (a @ '' days'')) \<longleftrightarrow> py_ge x 86400 \<and> py_lt x 1209600) \<and>
   ((\<exists>a. make_text_from_seconds x = Inr (a @ '' weeks'')) \<longleftrightarrow> py_ge x 1209600 \<and> py_lt x 2592000) \<and>
   ((\<exists>a. make_text_from_seconds x = Inr (a @ '' months'')) \<longleftrightarrow> py_ge x 2592000)"
proof (cases x)
  case (Fin s)
  then show ?thesis using thresholds_finite [of s] by simp
next
  case PosInf
  have "(\<exists>a. make_text_from_seconds PosInf = Inr (a @ '' '' @ u)) \<longleftrightarrow> u = ''months''"
    if "CHR '' '' \<notin> set u" for u
    using inf_months_unit [of u] that by (simp add: make_text_from_seconds_PosInf)
  from this [of "''seconds''"] this [of "''minutes''"] this [of "''hours''"]
    this [of "''days''"] this [of "''weeks''"] this [of "''months''"] PosInf
  show ?thesis by simp
next
  case NegInf
  with assms show ?thesis by simp
next
  case NaN
  with assms show ?thesis by simp
qed

text \<open>The instances of C5 at two hours and at positive infinity.\<close>

theorem make_text_from_seconds_thresholds_witness:
  "Fin 7200 \<noteq> NaN \<and> Fin 7200 \<noteq> NegInf \<and>
   (\<exists>a. make_text_from_seconds (Fin 7200) = Inr (a @ '' hours'')) \<and>
   PosInf \<noteq> NaN \<and> PosInf \<noteq> NegInf \<and>
   (\<exists>a. make_text_from_seconds PosInf = Inr (a @ '' months''))"
  using make_text_from_seconds_thresholds [of "Fin 7200"]
    make_text_from_seconds_thresholds [of PosInf] by simp

text \<open>
  C5, as the specification words it for every input, fails at NaN and at negative
  infinity. Every comparison with NaN is false, so the formatter reaches its last branch
  and gives \<^verbatim>\<open>nan months\<close>, although \<^verbatim>\<open>nan >= 2592000\<close> is false. Negative infinity is
  below 120, and \<^verbatim>\<open>int\<close> raises on it: no text in seconds is returned.
\<close>

theorem make_text_from_seconds_nan_neginf:
  "make_text_from_seconds NaN = Inr ''nan months'' \<and> \<not> py_ge NaN 2592000 \<and>
   py_lt NegInf 120 \<and> make_text_from_seconds NegInf = Inl OverflowError"
  by (simp add: make_text_from_seconds_def)

text \<open>
  C10. For every finite number of seconds, zero and the negative ones included, the
  formatter returns a text; the text ends in exactly one of the six units; and below 120
  the text is a whole number followed by \<^verbatim>\<open>seconds\<close>. (Only \<open>NegInf\<close>, which is no number,
  makes \<^verbatim>\<open>int\<close> raise.)
\<close>

theorem make_text_from_seconds_total:
  "(\<exists>t. make_text_from_seconds (Fin s) = Inr t) \<and>
   (\<exists>!u. u \<in> set [''seconds'', ''minutes'', ''hours'', ''days'', ''weeks'', ''months''] \<and>
          (\<exists>a. make_text_from_seconds (Fin s) = Inr (a @ '' '' @ u))) \<and>
   (s < 120 \<longrightarrow> (\<exists>n. make_text_from_seconds (Fin s) = Inr (str_int n @ '' seconds'')))"
proof (intro conjI)
  show "\<exists>t. make_text_from_seconds (Fin s) = Inr t"
    using text_unit [of s] by blast
next
  let ?U = "if s < 120 then ''seconds'' else if s < 3600 then ''minutes''
        else if s < 86400 then ''hours'' else if s < 1209600 then ''days''
        else if s < 2592000 then ''weeks'' else ''months''"
  show "\<exists>!u. u \<in> set [''seconds'', ''minutes'', ''hours'', ''days'', ''weeks'', ''months''] \<and>
          (\<exists>a. make_text_from_seconds (Fin s) = Inr (a @ '' '' @ u))"
  proof (rule ex1I [of _ ?U])
    show "?U \<in> set [''seconds'', ''minutes'', ''hours'', ''days'', ''weeks'', ''months''] \<and>
          (\<exists>a. make_text_from_seconds (Fin s) = Inr (a @ '' '' @ ?U))"
      using text_unit [of s] by simp
  next
    fix u
    assume u: "u \<in> set [''seconds'', ''minutes'', ''hours'', ''days'', ''weeks'', ''months''] \<and>
          (\<exists>a. make_text_from_seconds (Fin s) = Inr (a @ '' '' @ u))"
    then have "CHR '' '' \<notin> set u" by auto
    with u show "u = ?U" using text_unit_iff [of s u] by blast
  qed
next
  show "s < 120 \<longrightarrow> (\<exists>n. make_text_from_seconds (Fin s) = Inr (str_int n @ '' seconds''))"
    using text_seconds [of s] by blast
qed

text \<open>The instance of C10 at \<open>- 5\<close> seconds.\<close>

theorem make_text_from_seconds_total_witness:
  "(- 5 :: rat) < 120 \<and> (\<exists>n. make_text_from_seconds (Fin (- 5)) = Inr (str_int n @ '' seconds''))"
  using make_text_from_seconds_total [of "- 5"] by simp

lemma make_text_from_seconds_NegInf: "make_text_from_seconds NegInf = Inl OverflowError"
  by (simp add: make_text_from_seconds_def)

section \<open>Properties of the janitor\<close>

text \<open>Removing a path changes the file system at that path only.\<close>

lemma map_of_filter_neq:
  "map_of (filter (\<lambda>(q, e). q \<noteq> p) fs) = (map_of fs)(p := None)"
  by (induction fs) (auto simp: fun_eq_iff)

lemma os_remove_Some:
  "map_of fs p = Some e \<Longrightarrow> \<exists>fs'. os_remove fs p = Inr fs' \<and> map_of fs' = (map_of fs)(p := None)"
  by (simp add: os_remove_def map_of_filter_neq)

lemma clear_loop_map_of:
  "\<exists>fs'. clear_loop cutoff d ns fs = Inr fs' \<and>
     (\<forall>p. map_of fs' p =
        (if (\<exists>n \<in> set ns. p = os_path_join d n) \<and>
            (\<exists>e. map_of fs p = Some e \<and> isfile e \<and> mtime e < cutoff)
         then None else map_of fs p))"
proof (induction ns arbitrary: fs)
  case Nil
  then show ?case by simp
next
  case (Cons n ns)
  let ?p = "os_path_join d n"
  show ?case
  proof (cases "\<exists>e. map_of fs ?p = Some e \<and> isfile e \<and> mtime e < cutoff")
    case True
    then obtain e where e: "map_of fs ?p = Some e" "isfile e" "mtime e < cutoff" by blast
    from os_remove_Some [OF e(1)] obtain fs1 where
      fs1: "os_remove fs ?p = Inr fs1" "map_of fs1 = (map_of fs)(?p := None)" by blast
    from Cons.IH [of fs1] obtain fs' where
      fs': "clear_loop cutoff d ns fs1 = Inr fs'"
        "\<forall>p. map_of fs' p =
          (if (\<exists>n \<in> set ns. p = os_path_join d n) \<and>
              (\<exists>e. map_of fs1 p = Some e \<and> isfile e \<and> mtime e < cutoff)
           then None else map_of fs1 p)" by blast
    have "clear_loop cutoff d (n # ns) fs = Inr fs'"
      using e fs1 fs' by (simp add: os_path_isfile_def os_path_getmtime_def)
    moreover have "map_of fs' p =
        (if (\<exists>m \<in> set (n # ns). p = os_path_join d m) \<and>
            (\<exists>e. map_of fs p = Some e \<and> isfile e \<and> mtime e < cutoff)
         then None else map_of fs p)" for p
      using fs'(2) fs1(2) e by (cases "p = ?p") auto
    ultimately show ?thesis by blast
  next
    case False
    from Cons.IH [of fs] obtain fs' where
      fs': "clear_loop cutoff d ns fs = Inr fs'"
        "\<forall>p. map_of fs' p =
          (if (\<exists>n \<in> set ns. p = os_path_join d n) \<and>
              (\<exists>e. map_of fs p = Some e \<and> isfile e \<and> mtime e < cutoff)
           then None else map_of fs p)" by blast
    have "clear_loop cutoff d (n # ns) fs = Inr fs'"
      using False fs'(1)
      by (cases "map_of fs ?p") (auto simp: Let_def os_path_isfile_def os_path_getmtime_def)
    moreover have "map_of fs' p =
        (if (\<exists>m \<in> set (n # ns). p = os_path_join d m) \<and>
            (\<exists>e. map_of fs p = Some e \<and> isfile e \<and> mtime e < cutoff)
         then None else map_of fs p)" for p
      using fs'(2) False by (cases "p = ?p") auto
    ultimately show ?thesis by blast
  qed
qed

lemma os_listdir_member:
  "map_of fs (os_path_join d n) = Some e \<Longrightarrow> n \<in> set (os_listdir fs d)"
proof -
  assume "map_of fs (os_path_join d n) = Some e"
  then have "(d @ [n], e) \<in> set fs"
    by (auto simp: os_path_join_def dest: map_of_SomeD)
  then show ?thesis
    by (force simp: os_listdir_def)
qed

lemma clear_tempfiles_map_of:
  "\<exists>fs'. clear_tempfiles now fs = Inr fs' \<and>
     (\<forall>p. map_of fs' p =
        (if (\<exists>n. p = os_path_join [TEMPORARY_FILES_FOLDER_NAME] n) \<and>
            (\<exists>e. map_of fs p = Some e \<and> isfile e \<and> mtime e < now - 3600)
         then None else map_of fs p))"
proof -
  let ?d = "[TEMPORARY_FILES_FOLDER_NAME]"
  from clear_loop_map_of [of "now - 3600" ?d "os_listdir fs ?d" fs] obtain fs' where
    fs': "clear_loop (now - 3600) ?d (os_listdir fs ?d) fs = Inr fs'"
      "\<forall>p. map_of fs' p =
        (if (\<exists>n \<in> set (os_listdir fs ?d). p = os_path_join ?d n) \<and>
            (\<exists>e. map_of fs p = Some e \<and> isfile e \<and> mtime e < now - 3600)
         then None else map_of fs p)" by blast
  have "clear_tempfiles now fs = Inr fs'"
    using fs'(1) by (simp add: clear_tempfiles_def)
  moreover have "map_of fs' p =
        (if (\<exists>n. p = os_path_join ?d n) \<and>
            (\<exists>e. map_of fs p = Some e \<and> isfile e \<and> mtime e < now - 3600)
         then None else map_of fs p)" for p
    using fs'(2) os_listdir_member [of fs ?d] by auto
  ultimately show ?thesis by blast
qed

text \<open>
  C3. The janitor returns, and of the entries of the scratch folder it removes exactly
  the regular files modified more than 3600 seconds before \<open>now\<close>; every other entry of
  the folder stays as it was. In particular a file modified 61 minutes ago is removed
  and an entry modified 59 minutes ago is retained.
\<close>

theorem clear_tempfiles_removes_old_files:
  "\<exists>fs'. clear_tempfiles now fs = Inr fs' \<and>
     (\<forall>filename.
        map_of fs' (os_path_join [TEMPORARY_FILES_FOLDER_NAME] filename) =
          (case map_of fs (os_path_join [TEMPORARY_FILES_FOLDER_NAME] filename) of
             None \<Rightarrow> None
           | Some e \<Rightarrow> if isfile e \<and> 3600 < now - mtime e then None else Some e)) \<and>
     (\<forall>filename.
        map_of fs (os_path_join [TEMPORARY_FILES_FOLDER_NAME] filename) =
          Some \<lparr>isfile = True, mtime = now - 61 * 60\<rparr> \<longrightarrow>
        map_of fs' (os_path_join [TEMPORARY_FILES_FOLDER_NAME] filename) = None) \<and>
     (\<forall>filename e.
        map_of fs (os_path_join [TEMPORARY_FILES_FOLDER_NAME] filename) = Some e \<and>
        mtime e = now - 59 * 60 \<longrightarrow>
        map_of fs' (os_path_join [TEMPORARY_FILES_FOLDER_NAME] filename) = Some e)"
proof -
  from clear_tempfiles_map_of [of now fs] obtain fs' where
    r: "clear_tempfiles now fs = Inr fs'" and
    m: "\<And>p. map_of fs' p =
        (if (\<exists>n. p = os_path_join [TEMPORARY_FILES_FOLDER_NAME] n) \<and>
            (\<exists>e. map_of fs p = Some e \<and> isfile e \<and> mtime e < now - 3600)
         then None else map_of fs p)" by blast
  have a: "map_of fs' (os_path_join [TEMPORARY_FILES_FOLDER_NAME] filename) =
          (case map_of fs (os_path_join [TEMPORARY_FILES_FOLDER_NAME] filename) of
             None \<Rightarrow> None
           | Some e \<Rightarrow> if isfile e \<and> 3600 < now - mtime e then None else Some e)" for filename
    by (cases "map_of fs (os_path_join [TEMPORARY_FILES_FOLDER_NAME] filename)")
       (auto simp: m)
  have b: "map_of fs (os_path_join [TEMPORARY_FILES_FOLDER_NAME] filename) =
          Some \<lparr>isfile = True, mtime = now - 61 * 60\<rparr> \<Longrightarrow>
        map_of fs' (os_path_join [TEMPORARY_FILES_FOLDER_NAME] filename) = None" for filename
    by (simp add: a)
  have c: "map_of fs (os_path_join [TEMPORARY_FILES_FOLDER_NAME] filename) = Some e \<Longrightarrow>
        mtime e = now - 59 * 60 \<Longrightarrow>
        map_of fs' (os_path_join [TEMPORARY_FILES_FOLDER_NAME] filename) = Some e" for filename e
    by (simp add: a)
  from r a b c show ?thesis by blast
qed

text \<open>The instance of C3 with one file of 61 minutes and one of 59 minutes.\<close>

theorem clear_tempfiles_removes_old_files_witness:
  "\<exists>fs'. clear_tempfiles 10000
       [([TEMPORARY_FILES_FOLDER_NAME, ''dfg.png''], \<lparr>isfile = True, mtime = 10000 - 61 * 60\<rparr>),
        ([TEMPORARY_FILES_FOLDER_NAME, ''performance_dfg.png''],
           \<lparr>isfile = True, mtime = 10000 - 59 * 60\<rparr>)] = Inr fs' \<and>
     map_of fs' [TEMPORARY_FILES_FOLDER_NAME, ''dfg.png''] = None \<and>
     map_of fs' [TEMPORARY_FILES_FOLDER_NAME, ''performance_dfg.png''] =
       Some \<lparr>isfile = True, mtime = 10000 - 59 * 60\<rparr>"
  using clear_tempfiles_removes_old_files [of 10000
       "[([TEMPORARY_FILES_FOLDER_NAME, ''dfg.png''], \<lparr>isfile = True, mtime = 10000 - 61 * 60\<rparr>),
        ([TEMPORARY_FILES_FOLDER_NAME, ''performance_dfg.png''],
           \<lparr>isfile = True, mtime = 10000 - 59 * 60\<rparr>)]"]
  by (auto simp: os_path_join_def)

text \<open>
  C8. The janitor returns; an entry that is not a regular file stays as it was, whatever
  its age; and so does every path that is not an entry of the scratch folder itself.
\<close>

theorem clear_tempfiles_keeps_the_rest:
  "\<exists>fs'. clear_tempfiles now fs = Inr fs' \<and>
     (\<forall>p e. map_of fs p = Some e \<and> \<not> isfile e \<longrightarrow> map_of fs' p = Some e) \<and>
     (\<forall>p. (\<forall>filename. p \<noteq> os_path_join [TEMPORARY_FILES_FOLDER_NAME] filename) \<longrightarrow>
          map_of fs' p = map_of fs p)"
proof -
  from clear_tempfiles_map_of [of now fs] obtain fs' where
    r: "clear_tempfiles now fs = Inr fs'" and
    m: "\<And>p. map_of fs' p =
        (if (\<exists>n. p = os_path_join [TEMPORARY_FILES_FOLDER_NAME] n) \<and>
            (\<exists>e. map_of fs p = Some e \<and> isfile e \<and> mtime e < now - 3600)
         then None else map_of fs p)" by blast
  have a: "map_of fs p = Some e \<Longrightarrow> \<not> isfile e \<Longrightarrow> map_of fs' p = Some e" for p e
    by (simp add: m)
  have b: "(\<forall>filename. p \<noteq> os_path_join [TEMPORARY_FILES_FOLDER_NAME] filename) \<Longrightarrow>
          map_of fs' p = map_of fs p" for p
    by (simp add: m)
  from r a b show ?thesis by blast
qed

text \<open>
  The instance of C8 with an old subfolder of the scratch folder, an old file inside the
  subfolder and an old file outside the scratch folder.
\<close>

theorem clear_tempfiles_keeps_the_rest_witness:
  "\<exists>fs'. clear_tempfiles 10000
       [([TEMPORARY_FILES_FOLDER_NAME, ''old''], \<lparr>isfile = False, mtime = 0\<rparr>),
        ([TEMPORARY_FILES_FOLDER_NAME, ''old'', ''dfg.png''], \<lparr>isfile = True, mtime = 0\<rparr>),
        ([''page_process_mining_made_easy.py''], \<lparr>isfile = True, mtime = 0\<rparr>)] = Inr fs' \<and>
     map_of fs' [TEMPORARY_FILES_FOLDER_NAME, ''old''] = Some \<lparr>isfile = False, mtime = 0\<rparr> \<and>
     map_of fs' [TEMPORARY_FILES_FOLDER_NAME, ''old'', ''dfg.png''] =
       Some \<lparr>isfile = True, mtime = 0\<rparr> \<and>
     map_of fs' [''page_process_mining_made_easy.py''] = Some \<lparr>isfile = True, mtime = 0\<rparr>"
  using clear_tempfiles_keeps_the_rest [of 10000
       "[([TEMPORARY_FILES_FOLDER_NAME, ''old''], \<lparr>isfile = False, mtime = 0\<rparr>),
        ([TEMPORARY_FILES_FOLDER_NAME, ''old'', ''dfg.png''], \<lparr>isfile = True, mtime = 0\<rparr>),
        ([''page_process_mining_made_easy.py''], \<lparr>isfile = True, mtime = 0\<rparr>)]"]
  by (auto simp: os_path_join_def TEMPORARY_FILES_FOLDER_NAME_def)

text \<open>The run on the two files of C3, computed.\<close>

lemma clear_tempfiles_example_run:
  "clear_tempfiles 10000
       [([TEMPORARY_FILES_FOLDER_NAME, ''dfg.png''], \<lparr>isfile = True, mtime = 10000 - 61 * 60\<rparr>),
        ([TEMPORARY_FILES_FOLDER_NAME, ''performance_dfg.png''],
           \<lparr>isfile = True, mtime = 10000 - 59 * 60\<rparr>)] =
   Inr [([TEMPORARY_FILES_FOLDER_NAME, ''performance_dfg.png''],
           \<lparr>isfile = True, mtime = 10000 - 59 * 60\<rparr>)]"
  by (simp add: clear_tempfiles_def os_listdir_def os_path_join_def os_path_isfile_def
      os_path_getmtime_def os_remove_def)

section \<open>Properties of the event log\<close>

text \<open>The rows of a table, column by column.\<close>

lemma rectangular_length:
  "rectangular df \<Longrightarrow> map_of df c = Some cs \<Longrightarrow> length cs = nrows df"
  by (auto simp: rectangular_def list_all_iff dest!: map_of_SomeD)

lemma map_of_row:
  "map_of (map (\<lambda>(c, vs). (c, vs ! i)) df) c = map_option (\<lambda>vs. vs ! i) (map_of df c)"
  by (induction df) auto

lemma iterrows_column:
  assumes "rectangular df" "map_of df c = Some cs"
  shows "map (\<lambda>row. the (map_of row c)) (iterrows df) = cs"
proof -
  have "map (\<lambda>row. the (map_of row c)) (iterrows df) = map (\<lambda>i. cs ! i) [0..<nrows df]"
    using assms(2) by (simp add: iterrows_def map_of_row o_def)
  also have "\<dots> = cs"
    using rectangular_length [OF assms] map_nth [of cs] by simp
  finally show ?thesis .
qed

lemma iterrows_has_column:
  "map_of df c = Some cs \<Longrightarrow> row \<in> set (iterrows df) \<Longrightarrow> map_of row c \<noteq> None"
  by (auto simp: iterrows_def map_of_row)

lemma length_iterrows: "length (iterrows df) = nrows df"
  by (simp add: iterrows_def)

lemma split_row_distinct:
  assumes "c \<noteq> a" "c \<noteq> t" "a \<noteq> t"
    and "map_of row c = Some vc" "map_of row a = Some va" "map_of row t = Some vt"
      "map_of row te = Some ve"
  shows "split_row libs c a t te row [(c, xs), (a, ys), (t, zs)] =
    Inr [(c, xs @ [vc, vc]),
         (a, ys @ [Str (py_str libs va @ ''_start''), Str (py_str libs va @ ''_end'')]),
         (t, zs @ [vt, ve])]"
  using assms by (simp add: split_row_def row_get_def dict_append_def)

lemma split_rows_distinct:
  assumes "c \<noteq> a" "c \<noteq> t" "a \<noteq> t"
    and "\<forall>row \<in> set rows. map_of row c \<noteq> None \<and> map_of row a \<noteq> None \<and>
           map_of row t \<noteq> None \<and> map_of row te \<noteq> None"
  shows "split_rows libs c a t te rows [(c, xs), (a, ys), (t, zs)] =
    Inr [(c, xs @ concat (map (\<lambda>row. [the (map_of row c), the (map_of row c)]) rows)),
         (a, ys @ concat (map (\<lambda>row. [Str (py_str libs (the (map_of row a)) @ ''_start''),
                                      Str (py_str libs (the (map_of row a)) @ ''_end'')]) rows)),
         (t, zs @ concat (map (\<lambda>row. [the (map_of row t), the (map_of row te)]) rows))]"
  using assms(4)
proof (induction rows arbitrary: xs ys zs)
  case Nil
  then show ?case by simp
next
  case (Cons row rows)
  from Cons.prems obtain vc va vt ve where
    v: "map_of row c = Some vc" "map_of row a = Some va" "map_of row t = Some vt"
       "map_of row te = Some ve" by auto
  from Cons.prems have rest: "\<forall>row \<in> set rows. map_of row c \<noteq> None \<and> map_of row a \<noteq> None \<and>
           map_of row t \<noteq> None \<and> map_of row te \<noteq> None" by simp
  show ?case
    using split_row_distinct [OF assms(1-3) v, of libs xs ys zs] Cons.IH [OF rest] v
    by simp
qed

lemma concat_pairs_map:
  "concat (map (\<lambda>row. [f row, g row]) rows) =
   concat (map2 (\<lambda>x y. [x, y]) (map f rows) (map g rows))"
  by (induction rows) auto

lemma length_concat_pairs: "length (concat (map (\<lambda>x. [f x, g x]) xs)) = 2 * length xs"
  by (induction xs) auto

lemma length_concat_map2:
  "length xs = length ys \<Longrightarrow> length (concat (map2 (\<lambda>x y. [x, y]) xs ys)) = 2 * length xs"
  by (induction xs ys rule: list_induct2) auto

lemma load_event_log_split:
  assumes d: "c \<noteq> a" "c \<noteq> t" "a \<noteq> t"
    and cols: "map_of df c = Some cs" "map_of df a = Some as" "map_of df t = Some ts"
      "map_of df te = Some es"
    and rect: "rectangular df"
  shows "load_event_log_from_dataframe libs df c a t (Some te) =
    Inr (format_dataframe libs
      [(c, concat (map (\<lambda>v. [v, v]) cs)),
       (a, concat (map (\<lambda>v. [Str (py_str libs v @ ''_start''),
                             Str (py_str libs v @ ''_end'')]) as)),
       (t, concat (map2 (\<lambda>s e. [s, e]) ts es))] c a t)"
proof -
  let ?rows = "iterrows df"
  have has: "\<forall>row \<in> set ?rows. map_of row c \<noteq> None \<and> map_of row a \<noteq> None \<and>
           map_of row t \<noteq> None \<and> map_of row te \<noteq> None"
    using cols iterrows_has_column [of df] by blast
  have new0: "AList.update t [] (AList.update a [] (AList.update c [] [])) =
      [(c, []), (a, []), (t, [])]"
    using d by simp
  have c1: "concat (map (\<lambda>row. [the (map_of row c), the (map_of row c)]) ?rows) =
      concat (map (\<lambda>v. [v, v]) cs)"
  proof -
    have "concat (map (\<lambda>row. [the (map_of row c), the (map_of row c)]) ?rows) =
          concat (map (\<lambda>v. [v, v]) (map (\<lambda>row. the (map_of row c)) ?rows))"
      by (simp add: o_def)
    also have "\<dots> = concat (map (\<lambda>v. [v, v]) cs)"
      by (simp only: iterrows_column [OF rect cols(1)])
    finally show ?thesis .
  qed
  have a1: "concat (map (\<lambda>row. [Str (py_str libs (the (map_of row a)) @ ''_start''),
                                 Str (py_str libs (the (map_of row a)) @ ''_end'')]) ?rows) =
      concat (map (\<lambda>v. [Str (py_str libs v @ ''_start''), Str (py_str libs v @ ''_end'')]) as)"
  proof -
    have "concat (map (\<lambda>row. [Str (py_str libs (the (map_of row a)) @ ''_start''),
                      Str (py_str libs (the (map_of row a)) @ ''_end'')]) ?rows) =
          concat (map (\<lambda>v. [Str (py_str libs v @ ''_start''), Str (py_str libs v @ ''_end'')])
            (map (\<lambda>row. the (map_of row a)) ?rows))"
      by (simp add: o_def)
    also have "\<dots> =
        concat (map (\<lambda>v. [Str (py_str libs v @ ''_start''), Str (py_str libs v @ ''_end'')]) as)"
      by (simp only: iterrows_column [OF rect cols(2)])
    finally show ?thesis .
  qed
  have t1: "concat (map (\<lambda>row. [the (map_of row t), the (map_of row te)]) ?rows) =
      concat (map2 (\<lambda>s e. [s, e]) ts es)"
    by (simp only: concat_pairs_map [of "\<lambda>row. the (map_of row t)" "\<lambda>row. the (map_of row te)" ?rows]
      iterrows_column [OF rect cols(3)] iterrows_column [OF rect cols(4)])
  have sr: "split_rows libs c a t te ?rows [(c, []), (a, []), (t, [])] =
      Inr [(c, concat (map (\<lambda>v. [v, v]) cs)),
       (a, concat (map (\<lambda>v. [Str (py_str libs v @ ''_start''),
                             Str (py_str libs v @ ''_end'')]) as)),
       (t, concat (map2 (\<lambda>s e. [s, e]) ts es))]"
    using split_rows_distinct [OF d has, of libs "[]" "[]" "[]"] c1 a1 t1 by simp
  have len: "length cs = nrows df" "length as = nrows df" "length ts = nrows df"
      "length es = nrows df"
    using rectangular_length [OF rect] cols by auto
  have rect': "rectangular
      [(c, concat (map (\<lambda>v. [v, v]) cs)),
       (a, concat (map (\<lambda>v. [Str (py_str libs v @ ''_start''),
                             Str (py_str libs v @ ''_end'')]) as)),
       (t, concat (map2 (\<lambda>s e. [s, e]) ts es))]"
    using len by (simp add: rectangular_def nrows_def length_concat_pairs length_concat_map2)
  show ?thesis
    unfolding load_event_log_from_dataframe_def new0 Let_def
    using sr rect' by (simp add: pd_DataFrame_def)
qed

lemma nth_concat_pairs:
  "i < length xs \<Longrightarrow>
   concat (map (\<lambda>v. [f v, g v]) xs) ! (2 * i) = f (xs ! i) \<and>
   concat (map (\<lambda>v. [f v, g v]) xs) ! (2 * i + 1) = g (xs ! i)"
proof (induction xs arbitrary: i)
  case Nil
  then show ?case by simp
next
  case (Cons x xs)
  show ?case
  proof (cases i)
    case 0
    then show ?thesis by simp
  next
    case (Suc j)
    with Cons.prems have "j < length xs" by simp
    from Cons.IH [OF this] Suc show ?thesis by simp
  qed
qed

lemma nth_concat_map2:
  assumes "length xs = length ys" "i < length xs"
  shows "concat (map2 (\<lambda>x y. [x, y]) xs ys) ! (2 * i) = xs ! i \<and>
         concat (map2 (\<lambda>x y. [x, y]) xs ys) ! (2 * i + 1) = ys ! i"
  using assms
proof (induction xs ys arbitrary: i rule: list_induct2)
  case Nil
  then show ?case by simp
next
  case (Cons x xs y ys)
  show ?case
  proof (cases i)
    case 0
    then show ?thesis by simp
  next
    case (Suc j)
    with Cons.prems have "j < length xs" by simp
    from Cons.IH [OF this] Suc show ?thesis by simp
  qed
qed

lemma iterrows_nth:
  "k < nrows df \<Longrightarrow> iterrows df ! k = map (\<lambda>(c, vs). (c, vs ! k)) df"
  by (simp add: iterrows_def)

text \<open>
  The table that goes to \<^verbatim>\<open>format_dataframe\<close>. The columns chosen for case, activity and
  timestamp are distinct columns of the table, and the end column is a column of it: the
  page calls the function only then. Without an end column the table goes to
  \<^verbatim>\<open>format_dataframe\<close> as it is. With an end column the table that goes to it has two rows
  per input row: row \<open>2i\<close> has the case of input row \<open>i\<close>, its activity with \<^verbatim>\<open>_start\<close> and
  its start timestamp; row \<open>2i + 1\<close> has the same case, the activity with \<^verbatim>\<open>_end\<close> and the
  end timestamp. The event log is what \<^verbatim>\<open>format_dataframe\<close> makes of that table: which of
  these rows it keeps, and in which order, is PM4Py's doing and is not described here.
\<close>

lemma load_event_log_from_dataframe_table:
  assumes "c \<noteq> a" "c \<noteq> t" "a \<noteq> t"
    and "map_of df c = Some cs" "map_of df a = Some as" "map_of df t = Some ts"
      "map_of df te = Some es"
    and "rectangular df"
  shows "load_event_log_from_dataframe libs df c a t None =
           Inr (format_dataframe libs df c a t) \<and>
         (\<exists>df_new.
            load_event_log_from_dataframe libs df c a t (Some te) =
              Inr (format_dataframe libs df_new c a t) \<and>
            nrows df_new = 2 * nrows df \<and>
            (\<forall>i < nrows df.
               iterrows df_new ! (2 * i) =
                 [(c, cs ! i), (a, Str (py_str libs (as ! i) @ ''_start'')), (t, ts ! i)] \<and>
               iterrows df_new ! (2 * i + 1) =
                 [(c, cs ! i), (a, Str (py_str libs (as ! i) @ ''_end'')), (t, es ! i)]))"
proof -
  let ?new = "[(c, concat (map (\<lambda>v. [v, v]) cs)),
       (a, concat (map (\<lambda>v. [Str (py_str libs v @ ''_start''),
                             Str (py_str libs v @ ''_end'')]) as)),
       (t, concat (map2 (\<lambda>s e. [s, e]) ts es))]"
  have len: "length cs = nrows df" "length as = nrows df" "length ts = nrows df"
      "length es = nrows df"
    using rectangular_length [OF assms(8)] assms(4-7) by auto
  have n: "nrows ?new = 2 * nrows df"
    using len by (simp add: nrows_def length_concat_pairs)
  have rows: "iterrows ?new ! (2 * i) =
                 [(c, cs ! i), (a, Str (py_str libs (as ! i) @ ''_start'')), (t, ts ! i)] \<and>
               iterrows ?new ! (2 * i + 1) =
                 [(c, cs ! i), (a, Str (py_str libs (as ! i) @ ''_end'')), (t, es ! i)]"
    if "i < nrows df" for i
  proof -
    have k: "2 * i < nrows ?new" "2 * i + 1 < nrows ?new" using n that by auto
    have c: "concat (map (\<lambda>v. [v, v]) cs) ! (2 * i) = cs ! i"
        "concat (map (\<lambda>v. [v, v]) cs) ! (2 * i + 1) = cs ! i"
      using nth_concat_pairs [of i cs "\<lambda>v. v" "\<lambda>v. v"] that len by auto
    have a: "concat (map (\<lambda>v. [Str (py_str libs v @ ''_start''),
                             Str (py_str libs v @ ''_end'')]) as) ! (2 * i) =
              Str (py_str libs (as ! i) @ ''_start'')"
        "concat (map (\<lambda>v. [Str (py_str libs v @ ''_start''),
                             Str (py_str libs v @ ''_end'')]) as) ! (2 * i + 1) =
              Str (py_str libs (as ! i) @ ''_end'')"
      using nth_concat_pairs [of i as "\<lambda>v. Str (py_str libs v @ ''_start'')"
          "\<lambda>v. Str (py_str libs v @ ''_end'')"] that len by auto
    have t: "concat (map2 (\<lambda>s e. [s, e]) ts es) ! (2 * i) = ts ! i"
        "concat (map2 (\<lambda>s e. [s, e]) ts es) ! (2 * i + 1) = es ! i"
      using nth_concat_map2 [of ts es i] that len by auto
    show ?thesis
      unfolding iterrows_nth [OF k(1)] iterrows_nth [OF k(2)]
      using c a t by simp
  qed
  have "load_event_log_from_dataframe libs df c a t (Some te) =
      Inr (format_dataframe libs ?new c a t)"
    by (rule load_event_log_split [OF assms])
  with n rows have "\<exists>df_new.
            load_event_log_from_dataframe libs df c a t (Some te) =
              Inr (format_dataframe libs df_new c a t) \<and>
            nrows df_new = 2 * nrows df \<and>
            (\<forall>i < nrows df.
               iterrows df_new ! (2 * i) =
                 [(c, cs ! i), (a, Str (py_str libs (as ! i) @ ''_start'')), (t, ts ! i)] \<and>
               iterrows df_new ! (2 * i + 1) =
                 [(c, cs ! i), (a, Str (py_str libs (as ! i) @ ''_end'')), (t, es ! i)])"
    by blast
  moreover have "load_event_log_from_dataframe libs df c a t None =
           Inr (format_dataframe libs df c a t)"
    by (simp add: load_event_log_from_dataframe_def)
  ultimately show ?thesis by blast
qed


text \<open>The instance at a table of two rows.\<close>

lemma load_event_log_from_dataframe_table_instance:
  "\<exists>df_new.
     load_event_log_from_dataframe stub_libs
       [(''case_id'', [Str ''1'', Str ''2'']),
        (''activity'', [Str ''Granulation'', Val 7]),
        (''timestamp_start'', [Val 10, Val 20]),
        (''timestamp_end'', [Val 15, Val 25])]
       ''case_id'' ''activity'' ''timestamp_start'' (Some ''timestamp_end'') = Inr df_new \<and>
     nrows df_new = 4 \<and>
     iterrows df_new ! 0 =
       [(''case_id'', Str ''1''), (''activity'', Str ''Granulation_start''),
        (''timestamp_start'', Val 10)] \<and>
     iterrows df_new ! 1 =
       [(''case_id'', Str ''1''), (''activity'', Str ''Granulation_end''),
        (''timestamp_start'', Val 15)]"
proof -
  let ?df = "[(''case_id'', [Str ''1'', Str ''2'']),
        (''activity'', [Str ''Granulation'', Val 7]),
        (''timestamp_start'', [Val 10, Val 20]),
        (''timestamp_end'', [Val 15, Val (25::nat)])]"
  have r: "rectangular ?df" by (simp add: rectangular_def nrows_def)
  have n: "nrows ?df = 2" by (simp add: nrows_def)
  from load_event_log_from_dataframe_table [of "''case_id''" "''activity''" "''timestamp_start''"
      ?df "[Str ''1'', Str ''2'']" "[Str ''Granulation'', Val 7]" "[Val 10, Val 20]"
      "''timestamp_end''" "[Val 15, Val 25]" stub_libs, OF _ _ _ _ _ _ _ r]
  obtain df_new where
    d: "load_event_log_from_dataframe stub_libs ?df ''case_id'' ''activity'' ''timestamp_start''
          (Some ''timestamp_end'') = Inr (format_dataframe stub_libs df_new ''case_id''
            ''activity'' ''timestamp_start'')"
      "nrows df_new = 2 * nrows ?df"
      "\<forall>i < nrows ?df.
         iterrows df_new ! (2 * i) =
           [(''case_id'', [Str ''1'', Str ''2''] ! i),
            (''activity'', Str (py_str stub_libs ([Str ''Granulation'', Val 7] ! i) @ ''_start'')),
            (''timestamp_start'', [Val 10, Val 20] ! i)] \<and>
         iterrows df_new ! (2 * i + 1) =
           [(''case_id'', [Str ''1'', Str ''2''] ! i),
            (''activity'', Str (py_str stub_libs ([Str ''Granulation'', Val 7] ! i) @ ''_end'')),
            (''timestamp_start'', [Val 15, Val 25] ! i)]"
    by auto
  from d(3) n have "iterrows df_new ! (2 * 0) =
           [(''case_id'', [Str ''1'', Str ''2''] ! 0),
            (''activity'', Str (py_str stub_libs ([Str ''Granulation'', Val 7] ! 0) @ ''_start'')),
            (''timestamp_start'', [Val 10, Val 20] ! 0)] \<and>
         iterrows df_new ! (2 * 0 + 1) =
           [(''case_id'', [Str ''1'', Str ''2''] ! 0),
            (''activity'', Str (py_str stub_libs ([Str ''Granulation'', Val 7] ! 0) @ ''_end'')),
            (''timestamp_start'', [Val 15, Val 25] ! 0)]"
    by (metis zero_less_numeral)
  with d(1,2) n show ?thesis by (simp add: stub_libs_def)
qed

text \<open>A table of two rows, computed.\<close>

lemma load_event_log_from_dataframe_example:
  "load_event_log_from_dataframe stub_libs
     [(''case_id'', [Str ''1'', Str ''2'']),
      (''activity'', [Str ''Granulation'', Val 7]),
      (''timestamp_start'', [Val 10, Val 20]),
      (''timestamp_end'', [Val 15, Val 25])]
     ''case_id'' ''activity'' ''timestamp_start'' (Some ''timestamp_end'') =
   Inr [(''case_id'', [Str ''1'', Str ''1'', Str ''2'', Str ''2'']),
        (''activity'', [Str ''Granulation_start'', Str ''Granulation_end'',
                        Str ''7_start'', Str ''7_end'']),
        (''timestamp_start'', [Val 10, Val 15, Val 20, Val 25])]"
  by code_simp

section \<open>Properties of a run of the page\<close>

text \<open>
  C7. The loader calls the reader with sheet index 0 and returns the first sheet of a
  workbook; two workbooks with the same first sheet give the same run of the page,
  whatever their other sheets hold.
\<close>

theorem load_file_to_dataframe_first_sheet:
  "load_file_to_dataframe file = pd_read_excel file 0 \<and>
   load_file_to_dataframe (Workbook (sheet # others)) = Inr sheet \<and>
   page libs (inp\<lparr>uploaded_file := Some (Workbook (sheet # others))\<rparr>) =
   page libs (inp\<lparr>uploaded_file := Some (Workbook (sheet # others'))\<rparr>)"
  by (simp add: load_file_to_dataframe_def page_def load_data_def)

lemma nrows_head: "nrows (head k df) = min k (nrows df)"
  by (cases df) (auto simp: nrows_def head_def)

text \<open>
  C9. For each of the three entries of the select box, the text from position 10 on is
  not \<^verbatim>\<open>Load example\<close>, so the first branch of the view is never taken: the view shows
  the first 15 rows when the table has more than 30 rows and all rows otherwise.
\<close>

theorem data_table_example_branch_unreachable:
  assumes "procedure \<in> set load_procedures"
  shows "drop 10 procedure \<noteq> ''Load example'' \<and>
         data_table procedure df =
           (if 30 < nrows df
            then [St_text ''First 15 rows of data are shown below.'', St_dataframe 15]
            else [St_text ''All data is shown below.'', St_dataframe (nrows df)])"
  using assms by (auto simp: load_procedures_def data_table_def nrows_head)

text \<open>The instance of C9 at the first example table, of 21 rows.\<close>

theorem data_table_example_branch_unreachable_witness:
  "''Load example data 1 - Purchase orders'' \<in> set load_procedures \<and>
   drop 10 ''Load example data 1 - Purchase orders'' \<noteq> ''Load example'' \<and>
   data_table ''Load example data 1 - Purchase orders'' (example_data_1 stub_libs) =
     [St_text ''All data is shown below.'', St_dataframe 21]"
proof -
  have m: "''Load example data 1 - Purchase orders'' \<in> set load_procedures"
    by (simp add: load_procedures_def)
  have n: "nrows (example_data_1 stub_libs) = 21"
    by (simp add: nrows_def example_data_1_def)
  from data_table_example_branch_unreachable [OF m, of "example_data_1 stub_libs"] m n
  show ?thesis by simp
qed

text \<open>
  C6. With \<^verbatim>\<open>Load from file\<close> selected, \<^verbatim>\<open>df\<close> is set exactly when a file is uploaded and
  its load succeeds. When the load raises, the run calls the loader once, shows the error
  message with the text of the exception, and ends with \<^verbatim>\<open>df\<close> and \<^verbatim>\<open>log\<close> unset: no view,
  no column form, no check, no conversion and no analysis.
\<close>

theorem load_failure_stops_the_run:
  assumes "select_load_procedure inp = ''Load from file''"
  shows "fst (load_data libs inp) =
           (case uploaded_file inp of
              None \<Rightarrow> None
            | Some file \<Rightarrow>
                (case load_file_to_dataframe file of Inl e \<Rightarrow> None | Inr d \<Rightarrow> Some d)) \<and>
         (\<forall>file e.
            uploaded_file inp = Some file \<and> load_file_to_dataframe file = Inl e \<longrightarrow>
            page libs inp =
              Inr \<lparr>df_final = None, log_final = None,
                   events = [Call_load_file,
                     St_error (''Error loading file: '' @ e @
                       '', if it is a network error most likely you have the file open in Excel. Close it.'')]\<rparr>)"
  using assms
  by (auto simp: load_data_def page_def split: option.splits sum.splits)

text \<open>The instance of C6 at an upload the reader raises \<^verbatim>\<open>Network Error\<close> on.\<close>

theorem load_failure_stops_the_run_witness:
  "page stub_libs
     \<lparr>select_load_procedure = ''Load from file'',
      uploaded_file = Some (Unreadable ''Network Error''),
      case_column = ''case_id'', activity_column = ''activity'',
      timestamp_start_column = ''timestamp'', timestamp_end_column = None\<rparr> =
   Inr \<lparr>df_final = None, log_final = None,
        events = [Call_load_file,
          St_error ''Error loading file: Network Error, if it is a network error most likely you have the file open in Excel. Close it.'']\<rparr>"
  using load_failure_stops_the_run [of
     "\<lparr>select_load_procedure = ''Load from file'',
      uploaded_file = Some (Unreadable ''Network Error''),
      case_column = ''case_id'', activity_column = ''activity'',
      timestamp_start_column = ''timestamp'', timestamp_end_column = None\<rparr>" stub_libs]
  by (simp add: load_file_to_dataframe_def)

lemma fst_warn_if: "fst (warn_if cond msg st) = (cond \<or> fst st)"
  by (simp add: warn_if_def)

lemma checked_start: "checked (False, [])"
  by (simp add: checked_def)

lemma checked_warn_if: "checked st \<Longrightarrow> checked (warn_if cond msg st)"
  by (simp add: checked_def warn_if_def)

lemma column_checks_result:
  assumes "column_dtype libs df ts = Inr dtype_start"
    and "case te of None \<Rightarrow> True | Some e \<Rightarrow> column_dtype libs df e = Inr dtype_end"
  shows "\<exists>st. column_checks libs df c a ts te = Inr st \<and> checked st \<and>
     fst st = (c = a \<or> c = ts \<or> Some c = te \<or> a = ts \<or> Some a = te \<or> Some ts = te \<or>
               dtype_start \<noteq> ''datetime64[ns]'' \<or>
               (te \<noteq> None \<and> dtype_end \<noteq> ''datetime64[ns]''))"
proof (cases te)
  case None
  show ?thesis
    unfolding column_checks_def Let_def
    using assms None
    by (auto simp: fst_warn_if intro!: checked_warn_if checked_start)
next
  case (Some e)
  show ?thesis
    unfolding column_checks_def Let_def
    using assms Some
    by (auto simp: fst_warn_if intro!: checked_warn_if checked_start)
qed

text \<open>
  C4. The chosen timestamp columns are columns of the table, as the select boxes offer no
  others. If two of the four chosen columns are equal, or the dtype of a chosen timestamp
  column is not \<^verbatim>\<open>datetime64[ns]\<close>, then at least one warning is shown, nothing but
  warnings happens and \<^verbatim>\<open>log\<close> stays unset. Otherwise no warning is shown and \<^verbatim>\<open>log\<close> is
  what the conversion returns.
\<close>

theorem column_checks_gate_the_conversion:
  assumes "column_dtype libs df ts = Inr dtype_start"
    and "case te of None \<Rightarrow> True | Some e \<Rightarrow> column_dtype libs df e = Inr dtype_end"
  shows "if c = a \<or> c = ts \<or> Some c = te \<or> a = ts \<or> Some a = te \<or> Some ts = te \<or>
            dtype_start \<noteq> ''datetime64[ns]'' \<or>
            (te \<noteq> None \<and> dtype_end \<noteq> ''datetime64[ns]'')
         then \<exists>warnings. convert libs df c a ts te = Inr (warnings, None) \<and>
                warnings \<noteq> [] \<and> list_all is_warning warnings
         else convert libs df c a ts te =
                and_then (load_event_log_from_dataframe libs df c a ts te)
                  (\<lambda>log. Inr ([Call_load_event_log], Some log))"
proof -
  from column_checks_result [OF assms, of c a] obtain st where
    st: "column_checks libs df c a ts te = Inr st" "checked st"
      "fst st = (c = a \<or> c = ts \<or> Some c = te \<or> a = ts \<or> Some a = te \<or> Some ts = te \<or>
               dtype_start \<noteq> ''datetime64[ns]'' \<or>
               (te \<noteq> None \<and> dtype_end \<noteq> ''datetime64[ns]''))" by blast
  obtain any_warning warnings where p: "st = (any_warning, warnings)" by (cases st)
  show ?thesis
  proof (cases any_warning)
    case True
    with st p show ?thesis by (auto simp: convert_def checked_def)
  next
    case False
    with st p have "warnings = []" by (simp add: checked_def)
    with False st p show ?thesis by (auto simp: convert_def)
  qed
qed

text \<open>
  Instances of C4 on the second example table: the end column equal to the start column,
  the activity column equal to the case column, and a choice that passes.
\<close>

theorem column_checks_gate_the_conversion_witness:
  "convert stub_libs (example_data_2 stub_libs) ''case_id'' ''activity'' ''timestamp_start''
     (Some ''timestamp_start'') =
     Inr ([St_warning ''Timestamp start and timestamp end column should be different''], None) \<and>
   convert stub_libs (example_data_2 stub_libs) ''case_id'' ''case_id'' ''activity'' None =
     Inr ([St_warning ''Case and activity column should be different'',
           St_warning ''Timestamp start column should be of type datetime, convert to datetime in Excel first''],
          None) \<and>
   convert stub_libs (example_data_2 stub_libs) ''case_id'' ''activity'' ''timestamp_start'' None =
     Inr ([Call_load_event_log], Some (example_data_2 stub_libs))"
proof -
  have d1: "column_dtype stub_libs (example_data_2 stub_libs) ''timestamp_start'' =
      Inr ''datetime64[ns]''"
    by (simp add: column_dtype_def example_data_2_def stub_libs_def)
  from column_checks_gate_the_conversion [where libs = stub_libs
      and df = "example_data_2 stub_libs" and ts = "''timestamp_start''"
      and dtype_start = "''datetime64[ns]''" and te = None and dtype_end = "[]"
      and c = "''case_id''" and a = "''activity''", OF d1]
  have "convert stub_libs (example_data_2 stub_libs) ''case_id'' ''activity'' ''timestamp_start''
      None = Inr ([Call_load_event_log], Some (example_data_2 stub_libs))"
    by (simp add: load_event_log_from_dataframe_def stub_libs_def)
  moreover have "convert stub_libs (example_data_2 stub_libs) ''case_id'' ''activity''
     ''timestamp_start'' (Some ''timestamp_start'') =
     Inr ([St_warning ''Timestamp start and timestamp end column should be different''], None)"
    by (simp add: convert_def column_checks_def warn_if_def d1)
  moreover have "convert stub_libs (example_data_2 stub_libs) ''case_id'' ''case_id'' ''activity'' None =
     Inr ([St_warning ''Case and activity column should be different'',
           St_warning ''Timestamp start column should be of type datetime, convert to datetime in Excel first''],
          None)"
    by (simp add: convert_def column_checks_def warn_if_def column_dtype_def example_data_2_def
        stub_libs_def)
  ultimately show ?thesis by blast
qed

end
